theory Spec2Isabelle
  imports Main "HOL-Library.List_Lexorder" "HOL-Library.Char_ord"
begin

section \<open>Python values\<close>

text \<open>
  The values that flow through the client: \<^verbatim>\<open>None\<close>, strings, booleans and integers.
  Strings are byte strings; Python compares them code point by code point, which on
  ASCII is the lexicographic order of \<^typ>\<open>char list\<close>.
\<close>

datatype pyval = PNone | PStr string | PBool bool | PInt int

text \<open>Python truthiness, as tested by \<^verbatim>\<open>if x\<close>, \<^verbatim>\<open>not x\<close> and \<^verbatim>\<open>x or y\<close>.\<close>

fun truthy :: "pyval \<Rightarrow> bool" where
  "truthy PNone = False"
| "truthy (PStr s) = (s \<noteq> [])"
| "truthy (PBool b) = b"
| "truthy (PInt i) = (i \<noteq> 0)"

text \<open>\<^verbatim>\<open>x or y\<close>: the first operand when it is truthy, else the second.\<close>

definition py_or :: "pyval \<Rightarrow> pyval \<Rightarrow> pyval" where
  "py_or x y = (if truthy x then x else y)"

text \<open>\<^verbatim>\<open>x == y\<close>: \<^verbatim>\<open>bool\<close> is a subclass of \<^verbatim>\<open>int\<close>, so \<^verbatim>\<open>True == 1\<close>.\<close>

fun py_eq :: "pyval \<Rightarrow> pyval \<Rightarrow> bool" where
  "py_eq (PInt i) (PBool b) = (i = (if b then 1 else 0))"
| "py_eq (PBool b) (PInt i) = (i = (if b then 1 else 0))"
| "py_eq x y = (x = y)"

text \<open>
  A dictionary with string keys is the list of its items, looked up with \<^const>\<open>map_of\<close>.
  \<^verbatim>\<open>d.get(k, default)\<close> returns the default only when the key is absent; a key bound
  to \<^verbatim>\<open>None\<close> gives \<^verbatim>\<open>None\<close>. \<^verbatim>\<open>d.get(k)\<close> is \<^verbatim>\<open>d.get(k, None)\<close>.
\<close>

type_synonym pydict = "(string \<times> pyval) list"

definition dict_get :: "pydict \<Rightarrow> string \<Rightarrow> pyval \<Rightarrow> pyval" where
  "dict_get d k dflt = (case map_of d k of None \<Rightarrow> dflt | Some v \<Rightarrow> v)"

definition dict_keys :: "pydict \<Rightarrow> string list" where
  "dict_keys d = remdups (map fst d)"

text \<open>
  \<^verbatim>\<open>d1 == d2\<close> on dictionaries: the same keys, bound to values that are \<^verbatim>\<open>==\<close>.
\<close>

definition dict_eq :: "pydict \<Rightarrow> pydict \<Rightarrow> bool" where
  "dict_eq d1 d2 =
     (set (dict_keys d1) = set (dict_keys d2) \<and>
      list_all (\<lambda>k. py_eq (dict_get d1 k PNone) (dict_get d2 k PNone)) (dict_keys d1))"

text \<open>\<^verbatim>\<open>sep.join(xs)\<close>.\<close>

fun join :: "string \<Rightarrow> string list \<Rightarrow> string" where
  "join sep [] = []"
| "join sep [x] = x"
| "join sep (x # y # ys) = x @ sep @ join sep (y # ys)"

text \<open>\<^verbatim>\<open>str(v)\<close>, as \<^verbatim>\<open>"%s" % v\<close> renders a value.\<close>

definition digit_char :: "nat \<Rightarrow> char" where
  "digit_char d = char_of (48 + d)"

function str_nat :: "nat \<Rightarrow> string" where
  "str_nat n = (if n < 10 then [digit_char n] else str_nat (n div 10) @ [digit_char (n mod 10)])"
  by pat_completeness auto
termination
  by (relation "measure id") auto

declare str_nat.simps [simp del]

definition str_int :: "int \<Rightarrow> string" where
  "str_int i = (if i < 0 then CHR ''-'' # str_nat (nat (- i)) else str_nat (nat i))"

fun str_val :: "pyval \<Rightarrow> string" where
  "str_val PNone = ''None''"
| "str_val (PStr s) = s"
| "str_val (PBool b) = (if b then ''True'' else ''False'')"
| "str_val (PInt i) = str_int i"

section \<open>Module constants (\<^verbatim>\<open>distilclient/__init__.py\<close>)\<close>

definition API_MAX_VERSION :: string where
  "API_MAX_VERSION = ''1''"

definition API_MIN_VERSION :: string where
  "API_MIN_VERSION = ''2''"

definition API_DEPRECATED_VERSION :: "string list" where
  "API_DEPRECATED_VERSION = []"

section \<open>Resource\<close>

text \<open>
  Modelled from the spec: the class \<^verbatim>\<open>Resource\<close> of \<^verbatim>\<open>distilclient.common.apiclient.base\<close>,
  whose source is not among the files at hand (only its test \<^verbatim>\<open>tests/unit/test_base.py\<close> is).
  A Resource is built from a possibly null manager reference and a mapping from field
  names to values; it keeps the mapping as its backing data. Values are scalars here.
\<close>

record resource =
  class_name :: string
  manager :: "string option"
  info :: pydict

definition Resource :: "string option \<Rightarrow> pydict \<Rightarrow> resource" where
  "Resource mgr d = \<lparr>class_name = ''Resource'', manager = mgr, info = d\<rparr>"

definition has_id :: "resource \<Rightarrow> bool" where
  "has_id r = (map_of (info r) ''id'' \<noteq> None)"

definition resource_id :: "resource \<Rightarrow> pyval" where
  "resource_id r = dict_get (info r) ''id'' PNone"

text \<open>
  Modelled from the spec: \<^emph>\<open>two Resources are equal iff both have the same identifier
  (when both define one) or identical backing mappings (when neither does); if one has
  an identifier and the other does not, they compare unequal\<close>.
\<close>

definition resource_eq :: "resource \<Rightarrow> resource \<Rightarrow> bool" where
  "resource_eq r1 r2 =
     (if has_id r1 \<and> has_id r2 then py_eq (resource_id r1) (resource_id r2)
      else if has_id r1 \<or> has_id r2 then False
      else dict_eq (info r1) (info r2))"

text \<open>Modelled from the spec: \<^emph>\<open>must also define a consistent inequality\<close>.\<close>

definition resource_ne :: "resource \<Rightarrow> resource \<Rightarrow> bool" where
  "resource_ne r1 r2 = (\<not> resource_eq r1 r2)"

text \<open>
  Modelled from the spec: \<^emph>\<open>attribute names sorted alphabetically, rendered as\<close>
  \<^verbatim>\<open><ClassName field1=value1, field2=value2>\<close>. The order is the one of Python's
  \<^verbatim>\<open>sorted\<close> on strings.
\<close>

definition field_repr :: "resource \<Rightarrow> string \<Rightarrow> string" where
  "field_repr r k = k @ ''='' @ str_val (dict_get (info r) k PNone)"

definition resource_repr :: "resource \<Rightarrow> string" where
  "resource_repr r =
     ''<'' @ class_name r @ '' '' @
     join '', '' (map (field_repr r) (sort (dict_keys (info r)))) @ ''>''"

section \<open>List-style manager calls\<close>

text \<open>
  Modelled from the spec: \<^verbatim>\<open>ProductManager.list\<close> of \<^verbatim>\<open>distilclient.v2.products\<close>, whose
  source is not among the files at hand (only its test \<^verbatim>\<open>tests/unit/v2/test_products.py\<close>
  is). \<^emph>\<open>Optional filter arguments are serialized as a single comma-joined query
  parameter appended to the URL with\<close> \<^verbatim>\<open>?name=v1,v2\<close>\<^emph>\<open>; absent or empty filters omit the
  parameter entirely.\<close> The result is the pair of arguments handed to \<^verbatim>\<open>Manager._list\<close>:
  the URL and the response key.
\<close>

definition list_url :: "string \<Rightarrow> string \<Rightarrow> string list option \<Rightarrow> string" where
  "list_url path name filter_values =
     (case filter_values of
        None \<Rightarrow> path
      | Some vs \<Rightarrow> if vs = [] then path else path @ ''?'' @ name @ ''='' @ join '','' vs)"

definition products_list :: "string list option \<Rightarrow> string \<times> string" where
  "products_list regions = (list_url ''/v2/products'' ''regions'' regions, ''products'')"


section \<open>The client (\<^verbatim>\<open>distilclient/v2/client.py\<close>)\<close>

subsection \<open>Exceptions, collaborators and the trace of their use\<close>

text \<open>
  The exceptions that \<^verbatim>\<open>Client.__init__\<close> and \<^verbatim>\<open>Client._get_keystone_client\<close> raise
  themselves, \<^verbatim>\<open>AttributeError\<close> for an attribute read on an object that lacks it, and
  \<open>External\<close> for whatever a collaborator (keystoneclient, the transport, a manager
  class) raises; the constructor catches nothing, so each of them ends the construction.
\<close>

datatype error =
    ClientException string
  | CommandError string
  | RuntimeError string
  | AttributeError string
  | External string

text \<open>
  A \<^verbatim>\<open>keystoneclient.session.Session\<close> supplied by the caller, as far as the constructor
  uses it: \<^verbatim>\<open>get_token(auth)\<close> and
  \<^verbatim>\<open>get_endpoint(auth, interface=, service_type=, region_name=)\<close>.
\<close>

record keystone_session =
  get_token :: "pyval \<Rightarrow> error + pyval"
  get_endpoint :: "pyval \<Rightarrow> pyval \<Rightarrow> string \<Rightarrow> pyval \<Rightarrow> error + pyval"

text \<open>
  The client object that \<^verbatim>\<open>keystoneclient.client.Client\<close> returns:
  \<^verbatim>\<open>authenticate()\<close> (which may raise), \<^verbatim>\<open>auth_token\<close>, and
  \<^verbatim>\<open>service_catalog.get_endpoints(service_type)\<close>, a dictionary from service types to
  lists of catalog entries, each entry a dictionary.
\<close>

record keystone_client =
  authenticate :: "error option"
  auth_token :: pyval
  get_endpoints :: "string \<Rightarrow> error + (string \<times> pydict list) list"

text \<open>
  The transport \<^verbatim>\<open>httpclient.HTTPClient(distil_url, input_auth_token, user_agent, insecure=,
  cacert=, timeout=, retries=, http_log_debug=, api_version=)\<close>, as the record of the
  arguments it is built with.
\<close>

record HTTPClient =
  http_base_url :: pyval
  http_auth_token :: pyval
  http_user_agent :: pyval
  http_insecure :: pyval
  http_cacert :: pyval
  http_timeout :: pyval
  http_retries :: pyval
  http_log_debug_flag :: pyval
  http_api_version :: pyval

text \<open>
  What the constructor calls and does not define:
  \<^item> \<open>Discover\<close>: \<^verbatim>\<open>discover.Discover(session=, auth_url=)\<close> over a session made with
    \<^verbatim>\<open>verify\<close> and \<^verbatim>\<open>cert\<close>, giving its \<^verbatim>\<open>url_for\<close>;
  \<^item> \<open>ks_Client\<close>: \<^verbatim>\<open>ks_client.Client(session=, version=, **kw)\<close>, given the version and
    the other keyword arguments;
  \<^item> \<open>unicode_lower\<close>: \<^verbatim>\<open>str.lower()\<close> on strings that are not pure ASCII;
  \<^item> \<open>HTTPClient_init\<close>: the exception, if any, that building the transport raises;
  \<^item> \<open>Manager_init\<close>: the exception, if any, that building the manager of the given
    class raises.
\<close>

record environment =
  Discover :: "pyval \<Rightarrow> pyval \<Rightarrow> pyval \<Rightarrow> error + (string \<Rightarrow> pyval)"
  ks_Client :: "nat \<times> nat \<Rightarrow> pydict \<Rightarrow> error + keystone_client"
  unicode_lower :: "string \<Rightarrow> string"
  HTTPClient_init :: "HTTPClient \<Rightarrow> error option"
  Manager_init :: "string \<Rightarrow> error option"

text \<open>What \<^verbatim>\<open>self.keystone_client\<close> can hold besides \<^verbatim>\<open>None\<close>.\<close>

datatype ks_handle =
    LegacyJsonAdapter keystone_session
  | KeystoneClient keystone_client

text \<open>
  The trace of a construction: the warnings emitted and every use of the identity
  service, in order.
\<close>

datatype event =
    Warn string
  | AdapterNew pyval string pyval pyval
  | SessionGetToken pyval
  | SessionGetEndpoint pyval pyval string pyval
  | SessionNew pyval pyval
  | DiscoverNew pyval
  | KsClientNew "nat \<times> nat" pydict
  | KsAuthenticate
  | CatalogGetEndpoints string

fun is_warning :: "event \<Rightarrow> bool" where
  "is_warning (Warn m) = True"
| "is_warning e = False"

subsection \<open>Arguments and attributes\<close>

text \<open>
  An extension descriptor: its name and its manager class, if any. A manager class is
  given by its name and by the exception, if any, that calling it raises; a call that
  returns builds a manager and writes nothing to the client it is given.
\<close>

record manager_class =
  mc_name :: string
  mc_init :: "error option"

record extension =
  ext_name :: string
  ext_manager_class :: "manager_class option"

text \<open>
  The parameters of \<^verbatim>\<open>Client.__init__\<close>, as bound by a call; \<open>kwargs\<close> holds the
  keyword arguments that name no parameter. \<open>service_type\<close> is a string.
\<close>

record args =
  username :: pyval
  api_key :: pyval
  project_id :: pyval
  auth_url :: pyval
  insecure :: pyval
  timeout :: pyval
  tenant_id :: pyval
  project_name :: pyval
  region_name :: pyval
  endpoint_type :: pyval
  extensions :: "extension list option"
  service_type :: string
  service_name :: pyval
  retries :: pyval
  http_log_debug :: pyval
  input_auth_token :: pyval
  session :: "keystone_session option"
  auth :: pyval
  cacert :: pyval
  distil_url :: pyval
  user_agent :: pyval
  use_keyring :: pyval
  force_new_token :: pyval
  cached_token_lifetime :: pyval
  api_version :: pyval
  user_id :: pyval
  user_domain_id :: pyval
  user_domain_name :: pyval
  project_domain_id :: pyval
  project_domain_name :: pyval
  cert :: pyval
  password :: pyval
  kwargs :: pydict

text \<open>The call \<^verbatim>\<open>Client()\<close>: every parameter at its default.\<close>

definition default_args :: args where
  "default_args =
     \<lparr>username = PNone, api_key = PNone, project_id = PNone, auth_url = PNone,
      insecure = PBool False, timeout = PNone, tenant_id = PNone, project_name = PNone,
      region_name = PNone, endpoint_type = PStr ''publicURL'', extensions = None,
      service_type = ''rating'', service_name = PNone, retries = PNone,
      http_log_debug = PBool False, input_auth_token = PNone, session = None,
      auth = PNone, cacert = PNone, distil_url = PNone,
      user_agent = PStr ''python-distilclient'', use_keyring = PBool False,
      force_new_token = PBool False, cached_token_lifetime = PInt 300,
      api_version = PStr ''2'', user_id = PNone, user_domain_id = PNone,
      user_domain_name = PNone, project_domain_id = PNone, project_domain_name = PNone,
      cert = PNone, password = PNone, kwargs = []\<rparr>"

text \<open>The names of the parameters; a call binds a keyword of one of these names to the
  parameter, never to \<open>kwargs\<close>.\<close>

definition param_names :: "string list" where
  "param_names =
     [''username'', ''api_key'', ''project_id'', ''auth_url'', ''insecure'', ''timeout'',
      ''tenant_id'', ''project_name'', ''region_name'', ''endpoint_type'', ''extensions'',
      ''service_type'', ''service_name'', ''retries'', ''http_log_debug'',
      ''input_auth_token'', ''session'', ''auth'', ''cacert'', ''distil_url'',
      ''user_agent'', ''use_keyring'', ''force_new_token'', ''cached_token_lifetime'',
      ''api_version'', ''user_id'', ''user_domain_id'', ''user_domain_name'',
      ''project_domain_id'', ''project_domain_name'', ''cert'', ''password'']"

definition well_formed_call :: "args \<Rightarrow> bool" where
  "well_formed_call a = list_all (\<lambda>k. k \<notin> set param_names) (map fst (kwargs a))"

text \<open>
  The attributes that the constructor assigns under their own names before it builds the
  transport. Up to there nothing else writes to the object, so a record holds them.
\<close>

record client =
  self_username :: pyval
  self_password :: pyval
  self_tenant_id :: pyval
  self_tenant_name :: pyval
  self_user_id :: pyval
  self_project_id :: pyval
  self_project_name :: pyval
  self_user_domain_id :: pyval
  self_user_domain_name :: pyval
  self_project_domain_id :: pyval
  self_project_domain_name :: pyval
  self_endpoint_type :: pyval
  self_auth_url :: pyval
  self_region_name :: pyval
  self_cacert :: pyval
  self_cert :: pyval
  self_insecure :: pyval
  self_use_keyring :: pyval
  self_force_new_token :: pyval
  self_cached_token_lifetime :: pyval
  self_keystone_client :: "ks_handle option"
  self_session :: "keystone_session option"

text \<open>
  The finished \<^verbatim>\<open>Client\<close> is its attribute dictionary: \<^verbatim>\<open>_load_extensions\<close> writes
  attributes under names that the caller chooses, with \<^verbatim>\<open>setattr\<close>, so a written name may
  be one that the constructor has used. An attribute holds a plain value, the adapter
  or keystone client, the session, the transport, or a manager (given by its class).
\<close>

datatype attr =
    Val pyval
  | KsHandle ks_handle
  | Session keystone_session
  | Transport HTTPClient
  | Manager string

type_synonym object = "string \<rightharpoonup> attr"

text \<open>The attributes of the record, each under the name the constructor assigns it to.\<close>

definition attributes :: "client \<Rightarrow> object" where
  "attributes self = map_of
     [(''username'', Val (self_username self)),
      (''password'', Val (self_password self)),
      (''tenant_id'', Val (self_tenant_id self)),
      (''tenant_name'', Val (self_tenant_name self)),
      (''user_id'', Val (self_user_id self)),
      (''project_id'', Val (self_project_id self)),
      (''project_name'', Val (self_project_name self)),
      (''user_domain_id'', Val (self_user_domain_id self)),
      (''user_domain_name'', Val (self_user_domain_name self)),
      (''project_domain_id'', Val (self_project_domain_id self)),
      (''project_domain_name'', Val (self_project_domain_name self)),
      (''endpoint_type'', Val (self_endpoint_type self)),
      (''auth_url'', Val (self_auth_url self)),
      (''region_name'', Val (self_region_name self)),
      (''cacert'', Val (self_cacert self)),
      (''cert'', Val (self_cert self)),
      (''insecure'', Val (self_insecure self)),
      (''use_keyring'', Val (self_use_keyring self)),
      (''force_new_token'', Val (self_force_new_token self)),
      (''cached_token_lifetime'', Val (self_cached_token_lifetime self)),
      (''keystone_client'',
         (case self_keystone_client self of None \<Rightarrow> Val PNone | Some h \<Rightarrow> KsHandle h)),
      (''session'',
         (case self_session self of None \<Rightarrow> Val PNone | Some s \<Rightarrow> Session s))]"

subsection \<open>\<^verbatim>\<open>check_deprecated_arguments\<close>\<close>

text \<open>The dictionary \<^verbatim>\<open>deprecated\<close>, in the order it is written; the replacement may be \<^verbatim>\<open>None\<close>.\<close>

definition deprecated :: "(string \<times> string option) list" where
  "deprecated =
     [(''share_service_name'', Some ''service_name''),
      (''proxy_tenant_id'', None),
      (''proxy_token'', None),
      (''os_cache'', Some ''use_keyring''),
      (''api_key'', Some ''password'')]"

definition deprecation_msg :: "string \<Rightarrow> string option \<Rightarrow> string" where
  "deprecation_msg arg replacement =
     (let replacement_msg =
            (case replacement of None \<Rightarrow> [] | Some r \<Rightarrow> '' Use '' @ r @ '' instead.'')
      in ''Argument '' @ arg @ '' is deprecated.'' @ replacement_msg)"

text \<open>
  The loop over \<^verbatim>\<open>deprecated.items()\<close>: an argument whose \<^verbatim>\<open>kwargs.get(arg, None)\<close> is
  \<^verbatim>\<open>None\<close> is passed over, every other one is warned about. The result is the list of
  messages given to \<^verbatim>\<open>warnings.warn\<close>.
\<close>

fun deprecation_warnings :: "pydict \<Rightarrow> (string \<times> string option) list \<Rightarrow> string list" where
  "deprecation_warnings kw [] = []"
| "deprecation_warnings kw ((arg, replacement) # rest) =
     (if dict_get kw arg PNone = PNone then deprecation_warnings kw rest
      else deprecation_msg arg replacement # deprecation_warnings kw rest)"

definition check_deprecated_arguments :: "pydict \<Rightarrow> string list" where
  "check_deprecated_arguments kw = deprecation_warnings kw deprecated"

subsection \<open>\<^verbatim>\<open>_get_keystone_client\<close>\<close>

text \<open>
  The keyword arguments of the two calls of \<^verbatim>\<open>ks_client.Client\<close>, besides \<^verbatim>\<open>session\<close> and
  \<^verbatim>\<open>version\<close>.
\<close>

definition v3_kwargs :: "pyval \<Rightarrow> client \<Rightarrow> pydict" where
  "v3_kwargs v3_auth_url self =
     [(''auth_url'', v3_auth_url),
      (''username'', self_username self),
      (''password'', self_password self),
      (''user_id'', self_user_id self),
      (''user_domain_name'', self_user_domain_name self),
      (''user_domain_id'', self_user_domain_id self),
      (''project_id'', py_or (self_project_id self) (self_tenant_id self)),
      (''project_name'', self_project_name self),
      (''project_domain_name'', self_project_domain_name self),
      (''project_domain_id'', self_project_domain_id self),
      (''region_name'', self_region_name self)]"

definition v2_kwargs :: "pyval \<Rightarrow> client \<Rightarrow> pydict" where
  "v2_kwargs v2_auth_url self =
     [(''auth_url'', v2_auth_url),
      (''username'', self_username self),
      (''password'', self_password self),
      (''tenant_id'', self_tenant_id self),
      (''tenant_name'', self_tenant_name self),
      (''region_name'', self_region_name self),
      (''cert'', self_cert self),
      (''use_keyring'', self_use_keyring self),
      (''force_new_token'', self_force_new_token self),
      (''stale_duration'', self_cached_token_lifetime self)]"

text \<open>
  \<^verbatim>\<open>ks_client.Client(...)\<close> followed by \<^verbatim>\<open>keystone_client.authenticate()\<close>; \<open>tr\<close> is the
  trace so far.
\<close>

definition make_keystone_client ::
  "environment \<Rightarrow> event list \<Rightarrow> nat \<times> nat \<Rightarrow> pydict \<Rightarrow> (error + keystone_client) \<times> event list" where
  "make_keystone_client env tr version kw =
     (case ks_Client env version kw of
        Inl e \<Rightarrow> (Inl e, tr @ [KsClientNew version kw])
      | Inr kc \<Rightarrow>
          (case authenticate kc of
             Some e \<Rightarrow> (Inl e, tr @ [KsClientNew version kw, KsAuthenticate])
           | None \<Rightarrow> (Inr kc, tr @ [KsClientNew version kw, KsAuthenticate])))"

text \<open>The message of the exception when neither protocol version is found.\<close>

definition keystone_version_msg :: string where
  "keystone_version_msg =
     ''Unable to determine the Keystone version to authenticate '' @
     ''with using the given auth_url.''"

text \<open>\<^verbatim>\<open>verify\<close>: \<^verbatim>\<open>False\<close> if \<^verbatim>\<open>self.insecure\<close>, else \<^verbatim>\<open>self.cacert or True\<close>.\<close>

definition session_verify :: "client \<Rightarrow> pyval" where
  "session_verify self =
     (if truthy (self_insecure self) then PBool False else py_or (self_cacert self) (PBool True))"

definition get_keystone_client ::
  "environment \<Rightarrow> client \<Rightarrow> (error + keystone_client) \<times> event list" where
  "get_keystone_client env self =
     (let verify = session_verify self;
          tr = [SessionNew verify (self_cert self), DiscoverNew (self_auth_url self)]
      in case Discover env verify (self_cert self) (self_auth_url self) of
           Inl e \<Rightarrow> (Inl e, tr)
         | Inr url_for \<Rightarrow>
             (let v2_auth_url = url_for ''v2.0'';
                  v3_auth_url = url_for ''v3.0''
              in if truthy v3_auth_url then
                   make_keystone_client env tr (3, 0) (v3_kwargs v3_auth_url self)
                 else if truthy v2_auth_url then
                   make_keystone_client env tr (2, 0) (v2_kwargs v2_auth_url self)
                 else
                   (Inl (CommandError keystone_version_msg), tr)))"


subsection \<open>The endpoint scan\<close>

text \<open>
  \<^verbatim>\<open>s.lower()\<close>. Strings are UTF-8 byte strings. On a pure ASCII string the letters
  \<^verbatim>\<open>A\<close> to \<^verbatim>\<open>Z\<close> go to \<^verbatim>\<open>a\<close> to \<^verbatim>\<open>z\<close> and nothing else changes; on any other string the
  result is that of the Unicode lowering \<open>u\<close>, which the environment supplies.
\<close>

definition is_ascii :: "char \<Rightarrow> bool" where
  "is_ascii c = (of_char c < (128::nat))"

definition lower_char :: "char \<Rightarrow> char" where
  "lower_char c =
     (if CHR ''A'' \<le> c \<and> c \<le> CHR ''Z'' then char_of (of_char c + (32::nat)) else c)"

definition str_lower :: "(string \<Rightarrow> string) \<Rightarrow> string \<Rightarrow> string" where
  "str_lower u s = (if list_all is_ascii s then map lower_char s else u s)"

text \<open>\<^verbatim>\<open>s.split("url")[0]\<close>: what stands before the first \<^verbatim>\<open>url\<close>, or all of \<^verbatim>\<open>s\<close>.\<close>

fun split_url_head :: "string \<Rightarrow> string" where
  "split_url_head [] = []"
| "split_url_head (c # cs) =
     (if take 3 (c # cs) = ''url'' then [] else c # split_url_head cs)"

text \<open>
  The two tests of the loop body, for an \<^verbatim>\<open>endpoint_type\<close> that is a string: the test
  on the interface,
  \<^verbatim>\<open>entry.get("interface") == endpoint_type.lower().split("url")[0] or entry.get(endpoint_type)\<close>,
  and the test that makes the loop \<^verbatim>\<open>continue\<close>,
  \<^verbatim>\<open>region_name and not region_name == entry.get("region", entry.get("region_id"))\<close>.
\<close>

definition interface_matches :: "(string \<Rightarrow> string) \<Rightarrow> string \<Rightarrow> pydict \<Rightarrow> bool" where
  "interface_matches u et catalog_entry =
     (py_eq (dict_get catalog_entry ''interface'' PNone)
            (PStr (split_url_head (str_lower u et))) \<or>
      truthy (dict_get catalog_entry et PNone))"

definition region_differs :: "pyval \<Rightarrow> pydict \<Rightarrow> bool" where
  "region_differs region_name' catalog_entry =
     (truthy region_name' \<and>
      \<not> py_eq region_name'
          (dict_get catalog_entry ''region'' (dict_get catalog_entry ''region_id'' PNone)))"

definition entry_url :: "string \<Rightarrow> pydict \<Rightarrow> pyval" where
  "entry_url et catalog_entry =
     dict_get catalog_entry ''url'' (dict_get catalog_entry et PNone)"

text \<open>The entries that the catalog lists for a service type: \<^verbatim>\<open>catalog.get(service_type, [])\<close>.\<close>

definition catalog_entries :: "(string \<times> pydict list) list \<Rightarrow> string \<Rightarrow> pydict list" where
  "catalog_entries catalog service_type' =
     (case map_of catalog service_type' of None \<Rightarrow> [] | Some es \<Rightarrow> es)"

text \<open>
  The \<^verbatim>\<open>for\<close> loop over the catalog entries; the last argument is \<^verbatim>\<open>distil_url\<close> as it
  stands before the loop, the result is \<^verbatim>\<open>distil_url\<close> after it. The body starts with
  \<^verbatim>\<open>endpoint_type.lower()\<close>, which raises \<^verbatim>\<open>AttributeError\<close> when \<^verbatim>\<open>endpoint_type\<close> is
  not a string.
\<close>

fun scan_catalog ::
  "(string \<Rightarrow> string) \<Rightarrow> pyval \<Rightarrow> pyval \<Rightarrow> pydict list \<Rightarrow> pyval \<Rightarrow> error + pyval" where
  "scan_catalog u endpoint_type' region_name' [] distil_url' = Inr distil_url'"
| "scan_catalog u (PStr et) region_name' (catalog_entry # rest) distil_url' =
     (if interface_matches u et catalog_entry then
        if region_differs region_name' catalog_entry
        then scan_catalog u (PStr et) region_name' rest distil_url'
        else Inr (entry_url et catalog_entry)
      else scan_catalog u (PStr et) region_name' rest distil_url')"
| "scan_catalog u endpoint_type' region_name' (catalog_entry # rest) distil_url' =
     Inl (AttributeError ''lower'')"

subsection \<open>\<^verbatim>\<open>Client.__init__\<close>\<close>

text \<open>The attributes assigned first, from the parameters alone.\<close>

definition init_attributes :: "args \<Rightarrow> client" where
  "init_attributes a =
     \<lparr>self_username = username a,
      self_password = py_or (password a) (api_key a),
      self_tenant_id = py_or (tenant_id a) (project_id a),
      self_tenant_name = project_name a,
      self_user_id = user_id a,
      self_project_id = py_or (project_id a) (tenant_id a),
      self_project_name = project_name a,
      self_user_domain_id = user_domain_id a,
      self_user_domain_name = user_domain_name a,
      self_project_domain_id = project_domain_id a,
      self_project_domain_name = project_domain_name a,
      self_endpoint_type = endpoint_type a,
      self_auth_url = auth_url a,
      self_region_name = region_name a,
      self_cacert = cacert a,
      self_cert = cert a,
      self_insecure = insecure a,
      self_use_keyring = use_keyring a,
      self_force_new_token = force_new_token a,
      self_cached_token_lifetime = cached_token_lifetime a,
      self_keystone_client = None,
      self_session = None\<rparr>"

text \<open>
  The assignments after the check of the token against the URL:
  \<^verbatim>\<open>self.project_id = tenant_id if tenant_id is not None else project_id\<close>,
  \<^verbatim>\<open>self.keystone_client = None\<close>, \<^verbatim>\<open>self.session = session\<close>.
\<close>

definition set_project_and_session :: "args \<Rightarrow> client \<Rightarrow> client" where
  "set_project_and_session a self =
     self\<lparr>self_project_id := (if tenant_id a \<noteq> PNone then tenant_id a else project_id a),
          self_keystone_client := None,
          self_session := session a\<rparr>"

text \<open>
  The block \<^verbatim>\<open>if not input_auth_token: ...\<close>: with a session, an adapter over it and
  \<^verbatim>\<open>session.get_token(auth)\<close>; without, \<^verbatim>\<open>_get_keystone_client()\<close> and its \<^verbatim>\<open>auth_token\<close>.
  The result is the object with \<^verbatim>\<open>keystone_client\<close> set, and \<^verbatim>\<open>input_auth_token\<close> as it
  stands after the block.
\<close>

definition resolve_token ::
  "environment \<Rightarrow> args \<Rightarrow> pyval \<Rightarrow> client \<Rightarrow> (error + client \<times> pyval) \<times> event list" where
  "resolve_token env a service_name' self =
     (if \<not> truthy (input_auth_token a) then
        (case session a of
           Some s \<Rightarrow>
             (let tr = [AdapterNew (endpoint_type a) (service_type a) service_name' (region_name a),
                        SessionGetToken (auth a)]
              in case get_token s (auth a) of
                   Inl e \<Rightarrow> (Inl e, tr)
                 | Inr t \<Rightarrow> (Inr (self\<lparr>self_keystone_client := Some (LegacyJsonAdapter s)\<rparr>, t), tr))
         | None \<Rightarrow>
             (case get_keystone_client env self of
                (Inl e, tr) \<Rightarrow> (Inl e, tr)
              | (Inr kc, tr) \<Rightarrow>
                  (Inr (self\<lparr>self_keystone_client := Some (KeystoneClient kc)\<rparr>, auth_token kc), tr)))
      else (Inr (self, input_auth_token a), []))"

text \<open>
  The block \<^verbatim>\<open>if session and not distil_url: ... elif not distil_url: ...\<close>; the result is
  \<^verbatim>\<open>distil_url\<close> as it stands after the block. \<^verbatim>\<open>self.keystone_client.session\<close> is the
  adapter's session; \<^verbatim>\<open>self.keystone_client.service_catalog\<close> is the catalog of the
  client made by \<^verbatim>\<open>_get_keystone_client\<close>. Any other attribute read fails; the constructor
  never gets there (lemma \<open>resolve_endpoint_no_attribute_error\<close>).
\<close>

definition resolve_endpoint :: "environment \<Rightarrow> args \<Rightarrow> client \<Rightarrow> (error + pyval) \<times> event list" where
  "resolve_endpoint env a self =
     (if session a \<noteq> None \<and> \<not> truthy (distil_url a) then
        (case self_keystone_client self of
           Some (LegacyJsonAdapter s) \<Rightarrow>
             (get_endpoint s (auth a) (endpoint_type a) (service_type a) (region_name a),
              [SessionGetEndpoint (auth a) (endpoint_type a) (service_type a) (region_name a)])
         | _ \<Rightarrow> (Inl (AttributeError ''session''), []))
      else if \<not> truthy (distil_url a) then
        (case self_keystone_client self of
           Some (KeystoneClient kc) \<Rightarrow>
             (case get_endpoints kc (service_type a) of
                Inl e \<Rightarrow> (Inl e, [CatalogGetEndpoints (service_type a)])
              | Inr catalog \<Rightarrow>
                  (scan_catalog (unicode_lower env) (endpoint_type a) (region_name a)
                     (catalog_entries catalog (service_type a)) (distil_url a),
                   [CatalogGetEndpoints (service_type a)]))
         | _ \<Rightarrow> (Inl (AttributeError ''service_catalog''), []))
      else (Inr (distil_url a), []))"

text \<open>
  The six managers, \<^verbatim>\<open>self.measurements = measurements.MeasurementManager(self)\<close> and so
  on, in the order of the assignments: the attribute and the class. Building a manager
  may raise; the assignments before it are then lost with the object.
\<close>

definition managers :: "(string \<times> string) list" where
  "managers =
     [(''measurements'', ''MeasurementManager''),
      (''invoices'', ''InvoiceManager''),
      (''quotations'', ''QuotationManager''),
      (''credits'', ''CreditManager''),
      (''products'', ''ProductManager''),
      (''health'', ''HealthManager'')]"

fun attach_managers :: "environment \<Rightarrow> object \<Rightarrow> (string \<times> string) list \<Rightarrow> error + object" where
  "attach_managers env obj [] = Inr obj"
| "attach_managers env obj ((name, cls) # rest) =
     (case Manager_init env cls of
        Some e \<Rightarrow> Inl e
      | None \<Rightarrow> attach_managers env (obj(name \<mapsto> Manager cls)) rest)"

text \<open>
  \<^verbatim>\<open>_load_extensions\<close>: nothing for \<^verbatim>\<open>None\<close> or an empty list; else, for every extension
  with a manager class, in order, \<^verbatim>\<open>setattr(self, extension.name, extension.manager_class(self))\<close>.
  The attribute is written whatever stood under that name before.
\<close>

fun attach_extensions :: "object \<Rightarrow> extension list \<Rightarrow> error + object" where
  "attach_extensions obj [] = Inr obj"
| "attach_extensions obj (e # es) =
     (case ext_manager_class e of
        None \<Rightarrow> attach_extensions obj es
      | Some mc \<Rightarrow>
          (case mc_init mc of
             Some err \<Rightarrow> Inl err
           | None \<Rightarrow> attach_extensions (obj(ext_name e \<mapsto> Manager (mc_name mc))) es))"

definition load_extensions :: "object \<Rightarrow> extension list option \<Rightarrow> error + object" where
  "load_extensions obj exts =
     (case exts of
        None \<Rightarrow> Inr obj
      | Some es \<Rightarrow> if es = [] then Inr obj else attach_extensions obj es)"

text \<open>
  The end of the constructor: \<^verbatim>\<open>self.api_version\<close>, the transport in \<^verbatim>\<open>self.client\<close>, the
  managers, the extensions. The result is the finished object, or the exception that
  the transport, a manager or an extension's manager class raises.
\<close>

definition build_client ::
  "environment \<Rightarrow> args \<Rightarrow> client \<Rightarrow> pyval \<Rightarrow> pyval \<Rightarrow> error + object" where
  "build_client env a self distil_url' token =
     (let http = \<lparr>http_base_url = distil_url',
                  http_auth_token = token,
                  http_user_agent = user_agent a,
                  http_insecure = insecure a,
                  http_cacert = cacert a,
                  http_timeout = timeout a,
                  http_retries = retries a,
                  http_log_debug_flag = http_log_debug a,
                  http_api_version = api_version a\<rparr>
      in case HTTPClient_init env http of
           Some e \<Rightarrow> Inl e
         | None \<Rightarrow>
             (case attach_managers env
                     ((attributes self)(''api_version'' \<mapsto> Val (api_version a),
                                        ''client'' \<mapsto> Transport http))
                     managers of
                Inl e \<Rightarrow> Inl e
              | Inr obj \<Rightarrow> load_extensions obj (extensions a)))"

text \<open>The message of the exception for a token without a service URL.\<close>

definition token_auth_msg :: string where
  "token_auth_msg =
     ''For token-based authentication you should '' @
     ''provide 'input_auth_token' and 'distil_url'.''"

text \<open>
  The constructor: the finished object or the exception raised, and the trace.
\<close>

definition Client_init :: "environment \<Rightarrow> args \<Rightarrow> (error + object) \<times> event list" where
  "Client_init env a =
     (let self0 = init_attributes a;
          service_name' = dict_get (kwargs a) ''share_service_name'' (service_name a);
          tr0 = map Warn (check_deprecated_arguments (kwargs a))
      in if truthy (input_auth_token a) \<and> \<not> truthy (distil_url a) then
           (Inl (ClientException token_auth_msg), tr0)
         else
           (case resolve_token env a service_name' (set_project_and_session a self0) of
              (Inl e, tr1) \<Rightarrow> (Inl e, tr0 @ tr1)
            | (Inr (self1, token), tr1) \<Rightarrow>
                if \<not> truthy token then (Inl (RuntimeError ''Not Authorized''), tr0 @ tr1)
                else
                  (case resolve_endpoint env a self1 of
                     (Inl e, tr2) \<Rightarrow> (Inl e, tr0 @ tr1 @ tr2)
                   | (Inr distil_url', tr2) \<Rightarrow>
                       if \<not> truthy distil_url' then
                         (Inl (RuntimeError ''Could not find Distil endpoint in catalog''),
                          tr0 @ tr1 @ tr2)
                       else (build_client env a self1 distil_url' token, tr0 @ tr1 @ tr2))))"

subsection \<open>Observations on a run\<close>

text \<open>The protocol versions for which a keystone client was requested, in order.\<close>

fun ks_versions :: "event list \<Rightarrow> (nat \<times> nat) list" where
  "ks_versions [] = []"
| "ks_versions (KsClientNew version kw # tr) = version # ks_versions tr"
| "ks_versions (e # tr) = ks_versions tr"

text \<open>The names under which \<^verbatim>\<open>_load_extensions\<close> writes: those of the extensions that
  have a manager class.\<close>

definition attached_names :: "extension list option \<Rightarrow> string list" where
  "attached_names exts =
     (case exts of
        None \<Rightarrow> []
      | Some es \<Rightarrow> map ext_name (filter (\<lambda>e. ext_manager_class e \<noteq> None) es))"

text \<open>The transport that a client holds in its attribute \<^verbatim>\<open>client\<close>, if it holds one.\<close>

definition transport_of :: "object \<Rightarrow> HTTPClient option" where
  "transport_of obj = (case obj ''client'' of Some (Transport h) \<Rightarrow> Some h | _ \<Rightarrow> None)"

text \<open>
  The interface that an endpoint-type selector names: the lowered selector up to the
  first place where \<^verbatim>\<open>url\<close> stands, and all of it when \<^verbatim>\<open>url\<close> does not occur; so
  \<^verbatim>\<open>publicURL\<close>, \<^verbatim>\<open>internalURL\<close> and \<^verbatim>\<open>adminURL\<close> name \<^verbatim>\<open>public\<close>, \<^verbatim>\<open>internal\<close> and \<^verbatim>\<open>admin\<close>.
\<close>

definition url_position :: "string \<Rightarrow> nat option" where
  "url_position s = find (\<lambda>i. take 3 (drop i s) = ''url'') [0..<length s]"

definition selector_interface :: "(string \<Rightarrow> string) \<Rightarrow> string \<Rightarrow> string" where
  "selector_interface u et =
     (let s = str_lower u et in case url_position s of None \<Rightarrow> s | Some i \<Rightarrow> take i s)"

text \<open>
  An entry is selected when its interface is the one that the selector names, or it
  carries a non-empty value under the selector itself, and, when a region is specified,
  its region (\<^verbatim>\<open>region\<close>, else \<^verbatim>\<open>region_id\<close>) equals the requested one.
\<close>

definition entry_selected :: "(string \<Rightarrow> string) \<Rightarrow> string \<Rightarrow> pyval \<Rightarrow> pydict \<Rightarrow> bool" where
  "entry_selected u et region_name' catalog_entry =
     ((dict_get catalog_entry ''interface'' PNone = PStr (selector_interface u et) \<or>
       truthy (dict_get catalog_entry et PNone)) \<and>
      (truthy region_name' \<longrightarrow>
         py_eq region_name'
           (dict_get catalog_entry ''region'' (dict_get catalog_entry ''region_id'' PNone))))"

subsection \<open>Example collaborators and calls\<close>

text \<open>
  An environment whose identity service is never reached; its transport and managers
  are built without an exception.
\<close>

definition ks_unreachable :: environment where
  "ks_unreachable =
     \<lparr>Discover = (\<lambda>verify cert' url. Inl (External ''unreachable'')),
      ks_Client = (\<lambda>version kw. Inl (External ''unreachable'')),
      unicode_lower = (\<lambda>s. s),
      HTTPClient_init = (\<lambda>h. None),
      Manager_init = (\<lambda>cls. None)\<rparr>"




text \<open>
  A catalog that lists one entry for the service type \<^verbatim>\<open>compute\<close> and four for
  \<^verbatim>\<open>rating\<close>, and an identity service that speaks the protocol versions listed in
  \<open>versions\<close> and hands out that catalog.
\<close>

definition example_entries :: "pydict list" where
  "example_entries =
     [[(''interface'', PStr ''admin''), (''region'', PStr ''nz-por-1''), (''url'', PStr ''http://a'')],
      [(''interface'', PStr ''public''), (''region'', PStr ''nz-hlz-1''), (''url'', PStr ''http://b'')],
      [(''interface'', PStr ''public''), (''region'', PStr ''nz-por-1''), (''url'', PStr ''http://c'')],
      [(''interface'', PStr ''public''), (''region'', PStr ''nz-por-1''), (''url'', PStr ''http://d'')]]"

definition example_catalog :: "(string \<times> pydict list) list" where
  "example_catalog =
     [(''compute'',
         [[(''interface'', PStr ''public''), (''region'', PStr ''nz-por-1''),
           (''url'', PStr ''http://nova'')]]),
      (''rating'', example_entries)]"

definition example_keystone_client :: keystone_client where
  "example_keystone_client =
     \<lparr>authenticate = None, auth_token = PStr ''token'',
      get_endpoints = (\<lambda>st. Inr example_catalog)\<rparr>"

definition example_url_for :: "string list \<Rightarrow> string \<Rightarrow> pyval" where
  "example_url_for versions v = (if v \<in> set versions then PStr (''http://keystone/'' @ v) else PNone)"

definition example_keystone :: "string list \<Rightarrow> environment" where
  "example_keystone versions =
     \<lparr>Discover = (\<lambda>verify cert' url. Inr (example_url_for versions)),
      ks_Client = (\<lambda>version kw. Inr example_keystone_client),
      unicode_lower = (\<lambda>s. s),
      HTTPClient_init = (\<lambda>h. None),
      Manager_init = (\<lambda>cls. None)\<rparr>"

text \<open>The call \<^verbatim>\<open>Client(region_name=region, endpoint_type=selector)\<close>.\<close>

definition catalog_call :: "string \<Rightarrow> string \<Rightarrow> args" where
  "catalog_call region selector =
     default_args\<lparr>region_name := PStr region, endpoint_type := PStr selector\<rparr>"

text \<open>The call \<^verbatim>\<open>Client(api_key='secret', input_auth_token='token', distil_url='http://distil')\<close>.\<close>

definition api_key_call :: args where
  "api_key_call = default_args\<lparr>api_key := PStr ''secret'', input_auth_token := PStr ''token'',
                                 distil_url := PStr ''http://distil''\<rparr>"



section \<open>Properties\<close>

subsection \<open>Dictionaries\<close>

lemma set_dict_keys: "set (dict_keys d) = dom (map_of d)"
  by (simp add: dict_keys_def dom_map_of_conv_image_fst)

lemma py_eq_refl: "py_eq v v"
  by (cases v) simp_all

lemma dict_get_in_dom: "k \<in> dom (map_of d) \<Longrightarrow> dict_get d k PNone = the (map_of d k)"
  by (auto simp: dict_get_def)

lemma dict_eq_iff:
  "dict_eq d1 d2 \<longleftrightarrow>
     dom (map_of d1) = dom (map_of d2) \<and>
     (\<forall>k \<in> dom (map_of d1). py_eq (the (map_of d1 k)) (the (map_of d2 k)))"
proof (cases "dom (map_of d1) = dom (map_of d2)")
  case True
  then have "\<And>k. k \<in> dom (map_of d1) \<Longrightarrow>
      py_eq (dict_get d1 k PNone) (dict_get d2 k PNone) =
      py_eq (the (map_of d1 k)) (the (map_of d2 k))"
    by (simp add: dict_get_in_dom)
  with True show ?thesis
    unfolding dict_eq_def set_dict_keys list_all_iff by simp
next
  case False
  then show ?thesis
    unfolding dict_eq_def set_dict_keys by simp
qed

lemma dict_eq_same_map: "map_of d1 = map_of d2 \<Longrightarrow> dict_eq d1 d2"
  by (simp add: dict_eq_iff py_eq_refl)

subsection \<open>Module constants\<close>

text \<open>
  C10: the module declares \<^verbatim>\<open>API_MAX_VERSION = '1'\<close> and \<^verbatim>\<open>API_MIN_VERSION = '2'\<close>,
  so the declared maximum is strictly below the declared minimum (as strings, in
  Python's string order), and \<^verbatim>\<open>API_DEPRECATED_VERSION\<close> is the empty list.
\<close>

theorem api_version_constants:
  "API_MAX_VERSION = ''1'' \<and> API_MIN_VERSION = ''2'' \<and>
   API_MAX_VERSION < API_MIN_VERSION \<and> API_DEPRECATED_VERSION = []"
  by (simp add: API_MAX_VERSION_def API_MIN_VERSION_def API_DEPRECATED_VERSION_def)

subsection \<open>Resources and list calls\<close>

text \<open>
  C6: two Resources are equal iff both carry an identifier and the identifiers are
  equal (whatever the other fields), or neither carries one and the backing mappings
  are equal; when exactly one carries an identifier they are unequal; and inequality
  is the negation of equality.
\<close>

theorem resource_equality:
  "resource_eq r1 r2 =
     ((has_id r1 \<and> has_id r2 \<and> py_eq (resource_id r1) (resource_id r2)) \<or>
      (\<not> has_id r1 \<and> \<not> has_id r2 \<and> dict_eq (info r1) (info r2))) \<and>
   (has_id r1 \<noteq> has_id r2 \<longrightarrow> \<not> resource_eq r1 r2) \<and>
   resource_ne r1 r2 = (\<not> resource_eq r1 r2)"
  by (auto simp: resource_eq_def resource_ne_def)

text \<open>The cases of \<^verbatim>\<open>BaseTest.test_eq\<close>, and a pair where only one side has an identifier.\<close>

theorem resource_equality_witness:
  "resource_eq (Resource None [(''id'', PInt 1), (''name'', PStr ''hi'')])
               (Resource None [(''id'', PInt 1), (''name'', PStr ''hello'')]) \<and>
   \<not> resource_ne (Resource None [(''id'', PInt 1), (''name'', PStr ''hi'')])
                 (Resource None [(''id'', PInt 1), (''name'', PStr ''hello'')]) \<and>
   resource_eq (Resource None [(''name'', PStr ''joe''), (''age'', PInt 12)])
               (Resource None [(''name'', PStr ''joe''), (''age'', PInt 12)]) \<and>
   \<not> resource_ne (Resource None [(''name'', PStr ''joe''), (''age'', PInt 12)])
                 (Resource None [(''name'', PStr ''joe''), (''age'', PInt 12)]) \<and>
   has_id (Resource None [(''id'', PInt 1)]) \<noteq> has_id (Resource None [(''name'', PStr ''joe'')]) \<and>
   \<not> resource_eq (Resource None [(''id'', PInt 1)]) (Resource None [(''name'', PStr ''joe'')]) \<and>
   resource_ne (Resource None [(''id'', PInt 1)]) (Resource None [(''name'', PStr ''joe'')])"
  using resource_equality [of "Resource None [(''id'', PInt 1), (''name'', PStr ''hi'')]"
                              "Resource None [(''id'', PInt 1), (''name'', PStr ''hello'')]"]
        resource_equality [of "Resource None [(''name'', PStr ''joe''), (''age'', PInt 12)]"
                              "Resource None [(''name'', PStr ''joe''), (''age'', PInt 12)]"]
        resource_equality [of "Resource None [(''id'', PInt 1)]" "Resource None [(''name'', PStr ''joe'')]"]
  by (simp add: Resource_def has_id_def resource_id_def dict_get_def dict_eq_def dict_keys_def)

text \<open>
  C7: the printable form of a Resource is \<^verbatim>\<open><ClassName f1=v1, f2=v2>\<close> over its field
  names in sorted order, each exactly once; the Resource built from
  \<^verbatim>\<open>{"foo": "bar", "baz": "spam"}\<close> prints as \<^verbatim>\<open><Resource baz=spam, foo=bar>\<close>.
\<close>

theorem resource_repr_sorted:
  "(\<exists>names. resource_repr r =
       ''<'' @ class_name r @ '' '' @ join '', '' (map (field_repr r) names) @ ''>'' \<and>
     sorted names \<and> distinct names \<and> set names = fst ` set (info r)) \<and>
   (\<forall>k. field_repr r k = k @ ''='' @ str_val (dict_get (info r) k PNone)) \<and>
   resource_repr (Resource None [(''foo'', PStr ''bar''), (''baz'', PStr ''spam'')]) =
     ''<Resource baz=spam, foo=bar>''"
proof (intro conjI)
  let ?names = "sort (dict_keys (info r))"
  have "resource_repr r =
       ''<'' @ class_name r @ '' '' @ join '', '' (map (field_repr r) ?names) @ ''>''"
    by (simp add: resource_repr_def)
  moreover have "sorted ?names" by simp
  moreover have "distinct ?names" by (simp add: dict_keys_def)
  moreover have "set ?names = fst ` set (info r)" by (simp add: dict_keys_def)
  ultimately show "\<exists>names. resource_repr r =
       ''<'' @ class_name r @ '' '' @ join '', '' (map (field_repr r) names) @ ''>'' \<and>
     sorted names \<and> distinct names \<and> set names = fst ` set (info r)"
    by blast
next
  show "\<forall>k. field_repr r k = k @ ''='' @ str_val (dict_get (info r) k PNone)"
    by (simp add: field_repr_def)
next
  show "resource_repr (Resource None [(''foo'', PStr ''bar''), (''baz'', PStr ''spam'')]) =
     ''<Resource baz=spam, foo=bar>''"
    by (simp add: resource_repr_def Resource_def field_repr_def dict_get_def dict_keys_def)
qed

text \<open>
  C8: a list-style manager call, for any collection path and any name of the filter
  parameter: with no filter values (absent or empty) the request URL is the bare path;
  with filter values it is the path followed by \<^verbatim>\<open>?name=\<close> and the values joined by
  commas in the order given. So \<^verbatim>\<open>products.list\<close> requests \<^verbatim>\<open>/v2/products\<close> with no
  filter, and \<^verbatim>\<open>/v2/products?regions=nz-hlz-1,nz-por-1\<close> for
  \<^verbatim>\<open>["nz-hlz-1", "nz-por-1"]\<close>.
\<close>

theorem list_call_url:
  "list_url path name None = path \<and>
   list_url path name (Some []) = path \<and>
   list_url path name (Some (v # vs)) = path @ ''?'' @ name @ ''='' @ join '','' (v # vs) \<and>
   join '','' [v] = v \<and>
   join '','' (v # w # ws) = v @ '','' @ join '','' (w # ws) \<and>
   products_list regions = (list_url ''/v2/products'' ''regions'' regions, ''products'') \<and>
   products_list None = (''/v2/products'', ''products'') \<and>
   products_list (Some []) = (''/v2/products'', ''products'') \<and>
   products_list (Some [''nz-hlz-1'', ''nz-por-1'']) =
     (''/v2/products?regions=nz-hlz-1,nz-por-1'', ''products'')"
  by (simp add: products_list_def list_url_def)

subsection \<open>The constructor\<close>


lemma py_eq_PStr: "py_eq x (PStr s) = (x = PStr s)"
  by (cases x) simp_all

lemma Client_init_guard:
  "truthy (input_auth_token a) \<and> \<not> truthy (distil_url a) \<Longrightarrow>
   Client_init env a =
     (Inl (ClientException token_auth_msg), map Warn (check_deprecated_arguments (kwargs a)))"
  by (simp add: Client_init_def Let_def)



text \<open>An attribute is left as it is by every write under another name.\<close>

lemma attach_managers_other:
  "attach_managers env obj ms = Inr obj' \<Longrightarrow> k \<notin> fst ` set ms \<Longrightarrow> obj' k = obj k"
  by (induction env obj ms rule: attach_managers.induct) (auto split: option.splits)

lemma attach_extensions_other:
  "attach_extensions obj es = Inr obj' \<Longrightarrow>
   k \<notin> set (attached_names (Some es)) \<Longrightarrow> obj' k = obj k"
  by (induction obj es rule: attach_extensions.induct)
     (auto simp: attached_names_def split: option.splits)

lemma load_extensions_other:
  assumes "load_extensions obj exts = Inr obj'" and "k \<notin> set (attached_names exts)"
  shows "obj' k = obj k"
proof (cases exts)
  case None
  with assms show ?thesis by (simp add: load_extensions_def)
next
  case (Some es)
  show ?thesis
  proof (cases "es = []")
    case True
    with assms Some show ?thesis by (simp add: load_extensions_def)
  next
    case False
    with assms Some have "attach_extensions obj es = Inr obj'"
      by (simp add: load_extensions_def)
    with assms(2) Some show ?thesis by (simp add: attach_extensions_other)
  qed
qed

lemma build_client_transport:
  assumes "build_client env a self url token = Inr obj"
    and "''client'' \<notin> set (attached_names (extensions a))"
  shows "\<exists>h. obj ''client'' = Some (Transport h) \<and> http_auth_token h = token \<and> http_base_url h = url"
proof -
  let ?http = "\<lparr>http_base_url = url, http_auth_token = token, http_user_agent = user_agent a,
                http_insecure = insecure a, http_cacert = cacert a, http_timeout = timeout a,
                http_retries = retries a, http_log_debug_flag = http_log_debug a,
                http_api_version = api_version a\<rparr>"
  let ?obj0 = "(attributes self)(''api_version'' \<mapsto> Val (api_version a), ''client'' \<mapsto> Transport ?http)"
  from assms(1) obtain obj1 where
    m: "attach_managers env ?obj0 managers = Inr obj1" and
    l: "load_extensions obj1 (extensions a) = Inr obj"
    by (auto simp: build_client_def Let_def split: option.splits sum.splits)
  have "''client'' \<notin> fst ` set managers" by (simp add: managers_def)
  with m have "obj1 ''client'' = ?obj0 ''client''" by (rule attach_managers_other)
  moreover from l assms(2) have "obj ''client'' = obj1 ''client''" by (rule load_extensions_other)
  ultimately have "obj ''client'' = Some (Transport ?http)" by simp
  then show ?thesis by simp
qed


text \<open>
  With a transport and managers that are built without an exception and with no
  extensions, the end of the constructor returns.
\<close>

lemma build_client_returns:
  assumes "HTTPClient_init env = (\<lambda>h. None)" and "Manager_init env = (\<lambda>cls. None)"
    and "extensions a = None"
  shows "\<exists>obj. build_client env a self url token = Inr obj"
  using assms by (simp add: build_client_def Let_def managers_def load_extensions_def)


text \<open>The constructor up to the end, for a call with a token and a URL.\<close>

lemma token_url_call:
  assumes "truthy (input_auth_token a)" and "truthy (distil_url a)"
  shows "Client_init env a =
     (build_client env a (set_project_and_session a (init_attributes a))
        (distil_url a) (input_auth_token a),
      map Warn (check_deprecated_arguments (kwargs a)))"
  using assms by (simp add: Client_init_def resolve_token_def resolve_endpoint_def Let_def)

lemma no_kwargs_no_warnings: "check_deprecated_arguments [] = []"
  by (simp add: check_deprecated_arguments_def deprecated_def dict_get_def)



lemma list_all_warnings: "list_all is_warning (map Warn ws)"
  by (induction ws) simp_all

text \<open>
  C2: when \<^verbatim>\<open>input_auth_token\<close> is supplied (truthy) and \<^verbatim>\<open>distil_url\<close> is not (\<^verbatim>\<open>None\<close> or
  empty), the constructor raises \<^verbatim>\<open>ClientException\<close>, and up to then nothing has happened
  but the warnings for deprecated arguments: no use of a session, of the identity
  service or of the network.
\<close>

theorem token_without_url_fails:
  assumes "truthy (input_auth_token a)" and "\<not> truthy (distil_url a)"
  shows "fst (Client_init ks a) = Inl (ClientException token_auth_msg) \<and>
         snd (Client_init ks a) = map Warn (check_deprecated_arguments (kwargs a)) \<and>
         list_all is_warning (snd (Client_init ks a))"
  using assms by (simp add: Client_init_guard list_all_warnings)

theorem token_without_url_fails_witness:
  "truthy (PStr ''token'') \<and> \<not> truthy PNone \<and>
   fst (Client_init ks_unreachable
          (default_args\<lparr>input_auth_token := PStr ''token'', kwargs := [(''os_cache'', PBool True)]\<rparr>)) =
     Inl (ClientException token_auth_msg) \<and>
   snd (Client_init ks_unreachable
          (default_args\<lparr>input_auth_token := PStr ''token'', kwargs := [(''os_cache'', PBool True)]\<rparr>)) =
     [Warn ''Argument os_cache is deprecated. Use use_keyring instead.'']"
proof -
  let ?a = "default_args\<lparr>input_auth_token := PStr ''token'', kwargs := [(''os_cache'', PBool True)]\<rparr>"
  have t: "truthy (input_auth_token ?a)" and u: "\<not> truthy (distil_url ?a)"
    by (simp_all add: default_args_def)
  have w: "check_deprecated_arguments (kwargs ?a) =
             [''Argument os_cache is deprecated. Use use_keyring instead.'']"
    by (simp add: check_deprecated_arguments_def deprecated_def dict_get_def deprecation_msg_def)
  from token_without_url_fails [OF t u, of ks_unreachable] w show ?thesis
    by simp
qed



lemma api_key_call_returns_always:
  assumes "HTTPClient_init env = (\<lambda>h. None)" and "Manager_init env = (\<lambda>cls. None)"
  shows "\<not> isl (fst (Client_init env api_key_call))"
proof -
  have tu: "truthy (input_auth_token api_key_call)" "truthy (distil_url api_key_call)"
    by (simp_all add: api_key_call_def default_args_def)
  have "extensions api_key_call = None" by (simp add: api_key_call_def default_args_def)
  from build_client_returns [OF assms this] obtain obj where
    "build_client env api_key_call
       (set_project_and_session api_key_call (init_attributes api_key_call))
       (distil_url api_key_call) (input_auth_token api_key_call) = Inr obj"
    by blast
  then show ?thesis by (simp add: token_url_call [OF tu])
qed

lemma api_key_call_trace: "snd (Client_init env api_key_call) = []"
proof -
  have tu: "truthy (input_auth_token api_key_call)" "truthy (distil_url api_key_call)"
    by (simp_all add: api_key_call_def default_args_def)
  have "kwargs api_key_call = []" by (simp add: api_key_call_def default_args_def)
  then show ?thesis by (simp add: token_url_call [OF tu] no_kwargs_no_warnings)
qed



text \<open>
  C5: a deprecated argument is to be warned about once, and \<^verbatim>\<open>api_key\<close> is listed in
  \<^verbatim>\<open>deprecated\<close> with the replacement \<^verbatim>\<open>password\<close>. But \<^verbatim>\<open>api_key\<close> is a parameter of the
  constructor, so a call never binds it in \<^verbatim>\<open>kwargs\<close>, where the check looks: the call
  \<^verbatim>\<open>Client(api_key='secret', input_auth_token='token', distil_url='http://distil')\<close>
  emits no warning at all, whatever the collaborators do, and it succeeds whenever the
  transport and the managers are built without an exception.
\<close>

theorem api_key_warning_missing:
  "well_formed_call api_key_call \<and>
   api_key api_key_call = PStr ''secret'' \<and>
   (HTTPClient_init env = (\<lambda>h. None) \<longrightarrow> Manager_init env = (\<lambda>cls. None) \<longrightarrow>
      (\<exists>c. fst (Client_init env api_key_call) = Inr c)) \<and>
   snd (Client_init env api_key_call) = []"
proof -
  have "\<exists>c. fst (Client_init env api_key_call) = Inr c"
    if "HTTPClient_init env = (\<lambda>h. None)" "Manager_init env = (\<lambda>cls. None)"
    using api_key_call_returns_always [OF that] by (cases "fst (Client_init env api_key_call)") simp_all
  moreover have "well_formed_call api_key_call" "api_key api_key_call = PStr ''secret''"
    by (simp_all add: well_formed_call_def api_key_call_def default_args_def)
  ultimately show ?thesis by (simp add: api_key_call_trace)
qed

text \<open>With collaborators whose transport and managers are built without an exception.\<close>

theorem api_key_warning_missing_witness:
  "\<not> isl (fst (Client_init ks_unreachable api_key_call)) \<and>
   snd (Client_init ks_unreachable api_key_call) = []"
proof -
  have "HTTPClient_init ks_unreachable = (\<lambda>h. None)" "Manager_init ks_unreachable = (\<lambda>cls. None)"
    by (simp_all add: ks_unreachable_def)
  with api_key_warning_missing [of ks_unreachable] show ?thesis by auto
qed

text \<open>
  No well-formed call is warned about \<^verbatim>\<open>api_key\<close>, while every deprecated argument that
  does reach \<^verbatim>\<open>kwargs\<close> with a value other than \<^verbatim>\<open>None\<close> is warned about exactly once.
\<close>

lemma dict_get_absent:
  assumes "k \<notin> fst ` set d"
  shows "dict_get d k dflt = dflt"
proof -
  from assms have "map_of d k = None" by (simp add: map_of_eq_None_iff)
  then show ?thesis by (simp add: dict_get_def)
qed

lemma api_key_msg_differs:
  "deprecation_msg ''api_key'' (Some ''password'') \<noteq> deprecation_msg ''share_service_name'' (Some ''service_name'')"
  "deprecation_msg ''api_key'' (Some ''password'') \<noteq> deprecation_msg ''proxy_tenant_id'' None"
  "deprecation_msg ''api_key'' (Some ''password'') \<noteq> deprecation_msg ''proxy_token'' None"
  "deprecation_msg ''api_key'' (Some ''password'') \<noteq> deprecation_msg ''os_cache'' (Some ''use_keyring'')"
  by (simp_all add: deprecation_msg_def)

lemma api_key_never_warned:
  assumes "well_formed_call a"
  shows "deprecation_msg ''api_key'' (Some ''password'') \<notin> set (check_deprecated_arguments (kwargs a))"
proof -
  from assms have "''api_key'' \<notin> fst ` set (kwargs a)"
    by (auto simp: well_formed_call_def list_all_iff param_names_def)
  then have "dict_get (kwargs a) ''api_key'' PNone = PNone"
    by (rule dict_get_absent)
  then show ?thesis
    unfolding check_deprecated_arguments_def deprecated_def
    by (simp add: api_key_msg_differs)
qed

lemma deprecation_warnings_subset:
  "set (deprecation_warnings kw ds) \<subseteq> (\<lambda>(arg, r). deprecation_msg arg r) ` set ds"
  by (induction kw ds rule: deprecation_warnings.induct) auto

lemma deprecation_warnings_once:
  assumes "distinct (map (\<lambda>(arg, r). deprecation_msg arg r) ds)"
    and "(arg, r) \<in> set ds" and "dict_get kw arg PNone \<noteq> PNone"
  shows "count_list (deprecation_warnings kw ds) (deprecation_msg arg r) = 1"
  using assms
proof (induction ds)
  case Nil
  then show ?case by simp
next
  case (Cons d ds)
  obtain arg' r' where d: "d = (arg', r')" by (cases d)
  from Cons.prems(1) have fresh: "deprecation_msg arg' r' \<notin> set (deprecation_warnings kw ds)"
    using deprecation_warnings_subset [of kw ds] by (auto simp: d)
  show ?case
  proof (cases "(arg, r) = (arg', r')")
    case True
    with Cons.prems(3) fresh show ?thesis
      by (simp add: d count_list_0_iff)
  next
    case False
    with Cons.prems(2) have in_rest: "(arg, r) \<in> set ds" by (auto simp: d)
    with Cons.prems(1) have "deprecation_msg arg' r' \<noteq> deprecation_msg arg r"
      by (force simp: d)
    moreover from Cons.IH Cons.prems in_rest
    have "count_list (deprecation_warnings kw ds) (deprecation_msg arg r) = 1" by simp
    ultimately show ?thesis by (simp add: d)
  qed
qed

lemma deprecated_messages_distinct:
  "distinct (map (\<lambda>(arg, r). deprecation_msg arg r) deprecated)"
  by (simp add: deprecated_def deprecation_msg_def)

lemma deprecated_kwarg_warned_once:
  assumes "(arg, r) \<in> set deprecated" and "dict_get kw arg PNone \<noteq> PNone"
  shows "count_list (check_deprecated_arguments kw) (deprecation_msg arg r) = 1"
  unfolding check_deprecated_arguments_def
  using deprecated_messages_distinct assms by (rule deprecation_warnings_once)

lemma ks_versions_append: "ks_versions (xs @ ys) = ks_versions xs @ ks_versions ys"
  by (induction xs rule: ks_versions.induct) simp_all

lemma ks_versions_warnings: "ks_versions (map Warn ws) = []"
  by (induction ws) simp_all

lemma make_keystone_client_trace:
  "\<exists>rest. snd (make_keystone_client ks tr version kw) = tr @ KsClientNew version kw # rest \<and>
          ks_versions rest = []"
  by (auto simp: make_keystone_client_def split: sum.splits option.splits)

lemma resolve_endpoint_trace: "ks_versions (snd (resolve_endpoint ks a self)) = []"
  by (auto simp: resolve_endpoint_def split: option.splits ks_handle.splits sum.splits)

lemma session_verify_init:
  "session_verify (set_project_and_session a (init_attributes a)) =
     (if truthy (insecure a) then PBool False else py_or (cacert a) (PBool True))"
  by (simp add: session_verify_def set_project_and_session_def init_attributes_def)

text \<open>Without a token and without a session, the constructor goes through \<^verbatim>\<open>_get_keystone_client\<close>.\<close>

lemma Client_init_keystone:
  assumes "\<not> truthy (input_auth_token a)" and "session a = None"
  shows "\<exists>tr2. snd (Client_init ks a) =
            map Warn (check_deprecated_arguments (kwargs a)) @
            snd (get_keystone_client ks (set_project_and_session a (init_attributes a))) @ tr2 \<and>
          ks_versions tr2 = []"
    and "fst (get_keystone_client ks (set_project_and_session a (init_attributes a))) = Inl e \<Longrightarrow>
         fst (Client_init ks a) = Inl e"
proof -
  let ?self = "set_project_and_session a (init_attributes a)"
  let ?sn = "dict_get (kwargs a) ''share_service_name'' (service_name a)"
  obtain r tr1 where g: "get_keystone_client ks ?self = (r, tr1)" by (cases "get_keystone_client ks ?self")
  show "fst (get_keystone_client ks ?self) = Inl e \<Longrightarrow> fst (Client_init ks a) = Inl e"
    using assms g by (simp add: Client_init_def resolve_token_def Let_def)
  show "\<exists>tr2. snd (Client_init ks a) =
            map Warn (check_deprecated_arguments (kwargs a)) @
            snd (get_keystone_client ks ?self) @ tr2 \<and> ks_versions tr2 = []"
  proof (cases r)
    case (Inl e)
    with assms g have "snd (Client_init ks a) =
        map Warn (check_deprecated_arguments (kwargs a)) @ tr1 @ []"
      by (simp add: Client_init_def resolve_token_def Let_def)
    with g show ?thesis by (metis ks_versions.simps(1) snd_conv)
  next
    case (Inr kc)
    let ?self1 = "?self\<lparr>self_keystone_client := Some (KeystoneClient kc)\<rparr>"
    from assms g Inr have rt: "resolve_token ks a ?sn ?self = (Inr (?self1, auth_token kc), tr1)"
      by (simp add: resolve_token_def)
    obtain r2 tr2 where re: "resolve_endpoint ks a ?self1 = (r2, tr2)" by (cases "resolve_endpoint ks a ?self1")
    have v: "ks_versions tr2 = []" using resolve_endpoint_trace [of ks a ?self1] re by simp
    from assms rt re have
      "snd (Client_init ks a) = map Warn (check_deprecated_arguments (kwargs a)) @ tr1 @ tr2 \<or>
       snd (Client_init ks a) = map Warn (check_deprecated_arguments (kwargs a)) @ tr1 @ []"
      by (cases r2) (simp_all add: Client_init_def Let_def)
    with g v show ?thesis by (metis ks_versions.simps(1) snd_conv)
  qed
qed

text \<open>
  C4: when the constructor builds its own identity-service client (no token, no
  session) and the discovery at \<^verbatim>\<open>auth_url\<close> answers, a client for version 3 is requested
  whenever a v3 URL is found, at that URL, and no other; one for version 2 only when
  no v3 URL is found and a v2 URL is; and when neither is found the construction fails
  with \<^verbatim>\<open>CommandError\<close> (unable to determine the Keystone version) and no client is
  requested.
\<close>

theorem keystone_version_preference:
  assumes "\<not> truthy (input_auth_token a)" and "session a = None"
    and "Discover ks (if truthy (insecure a) then PBool False else py_or (cacert a) (PBool True))
           (cert a) (auth_url a) = Inr url_for"
  shows "DiscoverNew (auth_url a) \<in> set (snd (Client_init ks a)) \<and>
         (truthy (url_for ''v3.0'') \<longrightarrow>
            ks_versions (snd (Client_init ks a)) = [(3, 0)] \<and>
            (\<exists>kw. KsClientNew (3, 0) kw \<in> set (snd (Client_init ks a)) \<and>
                  map_of kw ''auth_url'' = Some (url_for ''v3.0''))) \<and>
         (\<not> truthy (url_for ''v3.0'') \<and> truthy (url_for ''v2.0'') \<longrightarrow>
            ks_versions (snd (Client_init ks a)) = [(2, 0)] \<and>
            (\<exists>kw. KsClientNew (2, 0) kw \<in> set (snd (Client_init ks a)) \<and>
                  map_of kw ''auth_url'' = Some (url_for ''v2.0''))) \<and>
         (\<not> truthy (url_for ''v3.0'') \<and> \<not> truthy (url_for ''v2.0'') \<longrightarrow>
            fst (Client_init ks a) = Inl (CommandError keystone_version_msg) \<and>
            ks_versions (snd (Client_init ks a)) = [])"
proof -
  let ?self = "set_project_and_session a (init_attributes a)"
  let ?tr = "[SessionNew (session_verify ?self) (self_cert ?self), DiscoverNew (self_auth_url ?self)]"
  let ?ws = "map Warn (check_deprecated_arguments (kwargs a))"
  have au: "self_auth_url ?self = auth_url a" and ce: "self_cert ?self = cert a"
    by (simp_all add: set_project_and_session_def init_attributes_def)
  from assms(3) have d: "Discover ks (session_verify ?self) (self_cert ?self) (self_auth_url ?self) = Inr url_for"
    by (simp only: session_verify_init au ce)
  from Client_init_keystone(1) [OF assms(1,2)] obtain tr2 where
    tr: "snd (Client_init ks a) = ?ws @ snd (get_keystone_client ks ?self) @ tr2"
    and tr2: "ks_versions tr2 = []" by blast
  have v: "ks_versions (snd (Client_init ks a)) = ks_versions (snd (get_keystone_client ks ?self))"
    by (simp add: tr tr2 ks_versions_append ks_versions_warnings)
  have sub: "set (snd (get_keystone_client ks ?self)) \<subseteq> set (snd (Client_init ks a))"
    by (auto simp: tr)
  have chosen: "DiscoverNew (auth_url a) \<in> set (snd (Client_init ks a)) \<and>
      ks_versions (snd (Client_init ks a)) = [version] \<and>
      (\<exists>kw'. KsClientNew version kw' \<in> set (snd (Client_init ks a)) \<and>
             map_of kw' ''auth_url'' = Some u)"
    if g: "get_keystone_client ks ?self = make_keystone_client ks ?tr version kw"
      and kw: "map_of kw ''auth_url'' = Some u" for version kw u
  proof -
    obtain rest where "snd (make_keystone_client ks ?tr version kw) = ?tr @ KsClientNew version kw # rest"
      and r: "ks_versions rest = []"
      using make_keystone_client_trace by blast
    then have m: "snd (get_keystone_client ks ?self) = ?tr @ KsClientNew version kw # rest"
      by (simp only: g)
    have 1: "DiscoverNew (auth_url a) \<in> set (snd (get_keystone_client ks ?self))"
      unfolding m by (simp add: au)
    have 2: "KsClientNew version kw \<in> set (snd (get_keystone_client ks ?self))"
      unfolding m by simp
    have 3: "ks_versions (snd (Client_init ks a)) = [version]"
      unfolding v m by (simp add: r)
    from sub 1 have "DiscoverNew (auth_url a) \<in> set (snd (Client_init ks a))" by (rule subsetD)
    moreover from sub 2 have "KsClientNew version kw \<in> set (snd (Client_init ks a))" by (rule subsetD)
    ultimately show ?thesis using 3 kw by blast
  qed
  show ?thesis
  proof (cases "truthy (url_for ''v3.0'')")
    case True
    with d have g: "get_keystone_client ks ?self =
        make_keystone_client ks ?tr (3, 0) (v3_kwargs (url_for ''v3.0'') ?self)"
      by (simp add: get_keystone_client_def Let_def)
    have "map_of (v3_kwargs (url_for ''v3.0'') ?self) ''auth_url'' = Some (url_for ''v3.0'')"
      by (simp add: v3_kwargs_def)
    from chosen [OF g this] True show ?thesis by simp
  next
    case v3: False
    show ?thesis
    proof (cases "truthy (url_for ''v2.0'')")
      case True
      with v3 d have g: "get_keystone_client ks ?self =
          make_keystone_client ks ?tr (2, 0) (v2_kwargs (url_for ''v2.0'') ?self)"
        by (simp add: get_keystone_client_def Let_def)
      have "map_of (v2_kwargs (url_for ''v2.0'') ?self) ''auth_url'' = Some (url_for ''v2.0'')"
        by (simp add: v2_kwargs_def)
      from chosen [OF g this] True v3 show ?thesis by simp
    next
      case False
      with v3 d have g: "get_keystone_client ks ?self = (Inl (CommandError keystone_version_msg), ?tr)"
        by (simp add: get_keystone_client_def Let_def)
      then have "fst (Client_init ks a) = Inl (CommandError keystone_version_msg)"
        using Client_init_keystone(2) [OF assms(1,2)] by simp
      moreover have "ks_versions (snd (Client_init ks a)) = []"
        by (simp add: v g)
      moreover have "DiscoverNew (auth_url a) \<in> set (snd (Client_init ks a))"
        using sub by (simp add: g au)
      ultimately show ?thesis using False v3 by simp
    qed
  qed
qed

text \<open>Identity services that speak both versions, the older one only, and neither.\<close>

theorem keystone_version_preference_witness:
  "ks_versions (snd (Client_init (example_keystone [''v2.0'', ''v3.0'']) default_args)) = [(3, 0)] \<and>
   ks_versions (snd (Client_init (example_keystone [''v2.0'']) default_args)) = [(2, 0)] \<and>
   fst (Client_init (example_keystone []) default_args) = Inl (CommandError keystone_version_msg)"
proof -
  have t: "\<not> truthy (input_auth_token default_args)" and s: "session default_args = None"
    by (simp_all add: default_args_def)
  have d: "Discover (example_keystone vs)
             (if truthy (insecure default_args) then PBool False
              else py_or (cacert default_args) (PBool True))
             (cert default_args) (auth_url default_args) = Inr (example_url_for vs)" for vs
    by (simp add: example_keystone_def)
  have both: "truthy (example_url_for [''v2.0'', ''v3.0''] ''v3.0'')"
    by (simp add: example_url_for_def)
  have older: "\<not> truthy (example_url_for [''v2.0''] ''v3.0'') \<and> truthy (example_url_for [''v2.0''] ''v2.0'')"
    by (simp add: example_url_for_def)
  have neither: "\<not> truthy (example_url_for [] ''v3.0'') \<and> \<not> truthy (example_url_for [] ''v2.0'')"
    by (simp add: example_url_for_def)
  from keystone_version_preference [OF t s d, of "[''v2.0'', ''v3.0'']"] both
  have "ks_versions (snd (Client_init (example_keystone [''v2.0'', ''v3.0'']) default_args)) = [(3, 0)]"
    by blast
  moreover from keystone_version_preference [OF t s d, of "[''v2.0'']"] older
  have "ks_versions (snd (Client_init (example_keystone [''v2.0'']) default_args)) = [(2, 0)]"
    by blast
  moreover from keystone_version_preference [OF t s d, of "[]"] neither
  have "fst (Client_init (example_keystone []) default_args) = Inl (CommandError keystone_version_msg)"
    by blast
  ultimately show ?thesis by simp
qed

text \<open>
  When the endpoint is resolved, \<^verbatim>\<open>self.keystone_client\<close> is the adapter if a session was
  given and the client of \<^verbatim>\<open>_get_keystone_client\<close> if not: no attribute is read on \<^verbatim>\<open>None\<close>.
\<close>

lemma resolve_endpoint_no_attribute_error:
  assumes "\<not> (truthy (input_auth_token a) \<and> \<not> truthy (distil_url a))"
    and "resolve_token ks a sn (set_project_and_session a self) = (Inr (self1, token), tr1)"
  shows "(session a \<noteq> None \<and> \<not> truthy (distil_url a) \<longrightarrow>
            (\<exists>s. self_keystone_client self1 = Some (LegacyJsonAdapter s))) \<and>
         (session a = None \<and> \<not> truthy (distil_url a) \<longrightarrow>
            (\<exists>kc. self_keystone_client self1 = Some (KeystoneClient kc)))"
  using assms
  by (auto simp: resolve_token_def Let_def split: if_splits option.splits sum.splits prod.splits)

text \<open>The scan of the catalog is a search for the first selected entry.\<close>

lemma find_upt_Suc:
  "find P [0..<Suc n] = (if P 0 then Some 0 else map_option Suc (find (\<lambda>i. P (Suc i)) [0..<n]))"
proof -
  have m: "find P (map Suc xs) = map_option Suc (find (\<lambda>i. P (Suc i)) xs)" for xs
    by (induction xs) simp_all
  have "[0..<Suc n] = 0 # map Suc [0..<n]"
    by (simp add: upt_conv_Cons map_Suc_upt del: upt_Suc)
  then show ?thesis by (simp add: m del: upt_Suc)
qed

lemma split_url_head_position:
  "split_url_head s = (case url_position s of None \<Rightarrow> s | Some i \<Rightarrow> take i s)"
proof (induction s)
  case Nil
  then show ?case by (simp add: url_position_def)
next
  case (Cons c cs)
  have "url_position (c # cs) =
          (if take 3 (c # cs) = ''url'' then Some 0 else map_option Suc (url_position cs))"
    unfolding url_position_def by (simp add: find_upt_Suc del: upt_Suc)
  with Cons show ?case by (simp split: option.splits)
qed

lemma split_url_head_selector: "split_url_head (str_lower u et) = selector_interface u et"
  by (simp add: selector_interface_def Let_def split_url_head_position)

lemma interface_matches_selected:
  "(interface_matches u et e \<and> \<not> region_differs rn e) = entry_selected u et rn e"
  by (auto simp: interface_matches_def region_differs_def entry_selected_def py_eq_PStr
        split_url_head_selector)

lemma scan_catalog_find:
  "scan_catalog u (PStr et) rn es d =
     Inr (case find (entry_selected u et rn) es of
            None \<Rightarrow> d
          | Some e \<Rightarrow> dict_get e ''url'' (dict_get e et PNone))"
proof (induction es)
  case Nil
  then show ?case by simp
next
  case (Cons e es)
  show ?case
  proof (cases "entry_selected u et rn e")
    case True
    then have "interface_matches u et e" "\<not> region_differs rn e"
      using interface_matches_selected [of u et e rn] by simp_all
    with True show ?thesis by (simp add: entry_url_def)
  next
    case False
    then have "\<not> interface_matches u et e \<or> region_differs rn e"
      using interface_matches_selected [of u et e rn] by simp
    with False Cons show ?thesis by auto
  qed
qed

text \<open>When \<^verbatim>\<open>endpoint_type\<close> is not a string, the first entry of the scan ends it.\<close>

lemma scan_catalog_not_a_string:
  "(\<forall>et. endpoint_type' \<noteq> PStr et) \<Longrightarrow>
   scan_catalog u endpoint_type' rn (e # es) d = Inl (AttributeError ''lower'')"
  by (cases endpoint_type') simp_all

text \<open>The three usual selectors, whatever the Unicode lowering.\<close>

lemma usual_selectors:
  "selector_interface u ''publicURL'' = ''public''"
  "selector_interface u ''internalURL'' = ''internal''"
  "selector_interface u ''adminURL'' = ''admin''"
  by code_simp+

text \<open>
  C3: with no session, no service URL (and no token, which alone would be refused), an
  endpoint type that is a string, and once the identity-service client is made and
  hands out its catalog, the constructor takes the first entry, in catalog order, among
  those that the catalog lists under the requested service type, whose interface is the
  one the endpoint type names (or which carries a value under the endpoint type itself)
  and whose region is the requested one when a region is given. If there is none, it
  raises \<^verbatim>\<open>RuntimeError("Could not find Distil endpoint in catalog")\<close>, and likewise when
  the URL of that entry is empty. Otherwise the constructor ends with that URL: the
  transport is built on it, and construction returns when the transport and the
  managers are built without an exception and there are no extensions.
\<close>

theorem endpoint_from_catalog:
  assumes "session a = None" and "\<not> truthy (distil_url a)" and "\<not> truthy (input_auth_token a)"
    and "endpoint_type a = PStr et"
    and "get_keystone_client env (set_project_and_session a (init_attributes a)) = (Inr kc, tr)"
    and "truthy (auth_token kc)"
    and "get_endpoints kc (service_type a) = Inr catalog"
  shows "(case find (entry_selected (unicode_lower env) et (region_name a))
                    (case map_of catalog (service_type a) of None \<Rightarrow> [] | Some es \<Rightarrow> es) of
            None \<Rightarrow>
              fst (Client_init env a) = Inl (RuntimeError ''Could not find Distil endpoint in catalog'')
          | Some e \<Rightarrow>
              (let url = dict_get e ''url'' (dict_get e et PNone)
               in if truthy url
                  then fst (Client_init env a) =
                         build_client env a
                           ((set_project_and_session a (init_attributes a))
                              \<lparr>self_keystone_client := Some (KeystoneClient kc)\<rparr>)
                           url (auth_token kc) \<and>
                       (\<forall>c. fst (Client_init env a) = Inr c \<longrightarrow>
                            ''client'' \<notin> set (attached_names (extensions a)) \<longrightarrow>
                            map_option http_base_url (transport_of c) = Some url) \<and>
                       (HTTPClient_init env = (\<lambda>h. None) \<longrightarrow>
                        Manager_init env = (\<lambda>cls. None) \<longrightarrow>
                        extensions a = None \<longrightarrow>
                        \<not> isl (fst (Client_init env a)))
                  else fst (Client_init env a) =
                         Inl (RuntimeError ''Could not find Distil endpoint in catalog''))) \<and>
         selector_interface (unicode_lower env) ''publicURL'' = ''public'' \<and>
         selector_interface (unicode_lower env) ''internalURL'' = ''internal'' \<and>
         selector_interface (unicode_lower env) ''adminURL'' = ''admin''"
proof -
  let ?self = "set_project_and_session a (init_attributes a)"
  let ?self1 = "?self\<lparr>self_keystone_client := Some (KeystoneClient kc)\<rparr>"
  let ?sn = "dict_get (kwargs a) ''share_service_name'' (service_name a)"
  let ?entries = "case map_of catalog (service_type a) of None \<Rightarrow> [] | Some es \<Rightarrow> es"
  let ?found = "find (entry_selected (unicode_lower env) et (region_name a)) ?entries"
  let ?url = "case ?found of None \<Rightarrow> distil_url a | Some e \<Rightarrow> dict_get e ''url'' (dict_get e et PNone)"
  let ?missing = "Inl (RuntimeError ''Could not find Distil endpoint in catalog'') :: error + object"
  from assms have rt: "resolve_token env a ?sn ?self = (Inr (?self1, auth_token kc), tr)"
    by (simp add: resolve_token_def)
  from assms have re: "resolve_endpoint env a ?self1 = (Inr ?url, [CatalogGetEndpoints (service_type a)])"
    by (simp add: resolve_endpoint_def catalog_entries_def scan_catalog_find)
  from assms rt re have r: "fst (Client_init env a) =
      (if truthy ?url then build_client env a ?self1 ?url (auth_token kc) else ?missing)"
    by (simp add: Client_init_def Let_def)
  have scan: "case ?found of
            None \<Rightarrow> fst (Client_init env a) = ?missing
          | Some e \<Rightarrow>
              (let url = dict_get e ''url'' (dict_get e et PNone)
               in if truthy url
                  then fst (Client_init env a) = build_client env a ?self1 url (auth_token kc) \<and>
                       (\<forall>c. fst (Client_init env a) = Inr c \<longrightarrow>
                            ''client'' \<notin> set (attached_names (extensions a)) \<longrightarrow>
                            map_option http_base_url (transport_of c) = Some url) \<and>
                       (HTTPClient_init env = (\<lambda>h. None) \<longrightarrow>
                        Manager_init env = (\<lambda>cls. None) \<longrightarrow>
                        extensions a = None \<longrightarrow>
                        \<not> isl (fst (Client_init env a)))
                  else fst (Client_init env a) = ?missing)"
  proof (cases ?found)
    case None
    with assms(2) r show ?thesis by simp
  next
    case (Some e)
    let ?u = "dict_get e ''url'' (dict_get e et PNone)"
    from Some have u: "?url = ?u" by simp
    show ?thesis
    proof (cases "truthy ?u")
      case True
      with r u have b: "fst (Client_init env a) = build_client env a ?self1 ?u (auth_token kc)"
        by simp
      have holds: "map_option http_base_url (transport_of c) = Some ?u"
        if "fst (Client_init env a) = Inr c" "''client'' \<notin> set (attached_names (extensions a))" for c
      proof -
        from that(1) b have "build_client env a ?self1 ?u (auth_token kc) = Inr c" by simp
        from build_client_transport [OF this that(2)] show ?thesis
          by (auto simp: transport_of_def)
      qed
      have returns: "\<not> isl (fst (Client_init env a))"
        if "HTTPClient_init env = (\<lambda>h. None)" "Manager_init env = (\<lambda>cls. None)" "extensions a = None"
        using build_client_returns [OF that, of ?self1 ?u "auth_token kc"] b by auto
      from b holds returns True Some show ?thesis by (simp add: Let_def)
    next
      case False
      with r u Some show ?thesis by (simp add: Let_def)
    qed
  qed
  then show ?thesis by (simp add: usual_selectors)
qed

text \<open>
  The example catalog. For region \<^verbatim>\<open>nz-por-1\<close> and the selector \<^verbatim>\<open>publicURL\<close>, the entry
  listed under \<^verbatim>\<open>compute\<close> is not looked at, the first two entries under \<^verbatim>\<open>rating\<close> are
  passed over (wrong interface, wrong region) and the third is taken, not the fourth;
  for \<^verbatim>\<open>adminURL\<close> the first is taken; for a region that no entry has, nothing is found.
\<close>

lemma example_find_public:
  "find (entry_selected (\<lambda>s. s) ''publicURL'' (PStr ''nz-por-1'')) example_entries =
     Some [(''interface'', PStr ''public''), (''region'', PStr ''nz-por-1''), (''url'', PStr ''http://c'')]"
  by (simp add: example_entries_def entry_selected_def usual_selectors dict_get_def)

lemma example_find_admin:
  "find (entry_selected (\<lambda>s. s) ''adminURL'' (PStr ''nz-por-1'')) example_entries =
     Some [(''interface'', PStr ''admin''), (''region'', PStr ''nz-por-1''), (''url'', PStr ''http://a'')]"
  by (simp add: example_entries_def entry_selected_def usual_selectors dict_get_def)

lemma example_find_none:
  "find (entry_selected (\<lambda>s. s) ''publicURL'' (PStr ''nz-xxx-1'')) example_entries = None"
  by (simp add: example_entries_def entry_selected_def usual_selectors dict_get_def)

theorem endpoint_from_catalog_witness:
  "\<not> isl (fst (Client_init (example_keystone [''v3.0'']) (catalog_call ''nz-por-1'' ''publicURL''))) \<and>
   map_option http_base_url
     (transport_of (projr (fst (Client_init (example_keystone [''v3.0''])
                                  (catalog_call ''nz-por-1'' ''publicURL''))))) =
     Some (PStr ''http://c'') \<and>
   map_option http_base_url
     (transport_of (projr (fst (Client_init (example_keystone [''v3.0''])
                                  (catalog_call ''nz-por-1'' ''adminURL''))))) =
     Some (PStr ''http://a'') \<and>
   fst (Client_init (example_keystone [''v3.0'']) (catalog_call ''nz-xxx-1'' ''publicURL'')) =
     Inl (RuntimeError ''Could not find Distil endpoint in catalog'')"
proof -
  let ?env = "example_keystone [''v3.0'']"
  have pre: "session (catalog_call r t) = None" "\<not> truthy (distil_url (catalog_call r t))"
    "\<not> truthy (input_auth_token (catalog_call r t))" "endpoint_type (catalog_call r t) = PStr t" for r t
    by (simp_all add: catalog_call_def default_args_def)
  have "fst (get_keystone_client ?env self) = Inr example_keystone_client" for self
    by (simp add: get_keystone_client_def make_keystone_client_def example_keystone_def
          example_url_for_def example_keystone_client_def Let_def)
  then have g: "get_keystone_client ?env self =
                  (Inr example_keystone_client, snd (get_keystone_client ?env self))" for self
    by (simp add: prod_eq_iff)
  have t: "truthy (auth_token example_keystone_client)"
    by (simp add: example_keystone_client_def)
  have e: "get_endpoints example_keystone_client (service_type (catalog_call r t)) = Inr example_catalog"
    for r t
    by (simp add: example_keystone_client_def)
  have c: "(case map_of example_catalog (service_type (catalog_call r t)) of
              None \<Rightarrow> [] | Some es \<Rightarrow> es) = example_entries" for r t
    by (simp add: example_catalog_def catalog_call_def default_args_def)
  have env: "unicode_lower ?env = (\<lambda>s. s)" "HTTPClient_init ?env = (\<lambda>h. None)"
    "Manager_init ?env = (\<lambda>cls. None)"
    by (simp_all add: example_keystone_def)
  have ext: "extensions (catalog_call r t) = None" "attached_names None = []" for r t
    by (simp_all add: catalog_call_def default_args_def attached_names_def)
  have rn: "region_name (catalog_call r t) = PStr r" for r t
    by (simp add: catalog_call_def)
  have u: "dict_get [(''interface'', PStr i), (''region'', PStr r), (''url'', PStr x)] ''url'' d = PStr x"
    for i r x d
    by (simp add: dict_get_def)
  have held: "\<not> isl r \<and> map_option http_base_url (transport_of (projr r)) = Some x"
    if "\<not> isl r \<and> (\<forall>c. r = Inr c \<longrightarrow> map_option http_base_url (transport_of c) = Some x)"
    for r :: "error + object" and x
    using that by (cases r) auto
  from endpoint_from_catalog [OF pre g t e, of "''nz-por-1''" "''publicURL''"]
  have "\<not> isl (fst (Client_init ?env (catalog_call ''nz-por-1'' ''publicURL''))) \<and>
        (\<forall>c. fst (Client_init ?env (catalog_call ''nz-por-1'' ''publicURL'')) = Inr c \<longrightarrow>
             map_option http_base_url (transport_of c) = Some (PStr ''http://c''))"
    by (simp (no_asm_use) add: c env ext rn example_find_public u Let_def) blast
  note public = held [OF this]
  from endpoint_from_catalog [OF pre g t e, of "''nz-por-1''" "''adminURL''"]
  have "\<not> isl (fst (Client_init ?env (catalog_call ''nz-por-1'' ''adminURL''))) \<and>
        (\<forall>c. fst (Client_init ?env (catalog_call ''nz-por-1'' ''adminURL'')) = Inr c \<longrightarrow>
             map_option http_base_url (transport_of c) = Some (PStr ''http://a''))"
    by (simp (no_asm_use) add: c env ext rn example_find_admin u Let_def) blast
  note admin = held [OF this]
  from endpoint_from_catalog [OF pre g t e, of "''nz-xxx-1''" "''publicURL''"]
  have none: "fst (Client_init ?env (catalog_call ''nz-xxx-1'' ''publicURL'')) =
     Inl (RuntimeError ''Could not find Distil endpoint in catalog'')"
    by (simp (no_asm_use) add: c env rn example_find_none) blast
  from public admin none show ?thesis by simp
qed

end
